theory Spec2Isabelle
  imports Main
begin

section \<open>The placeholder extension module \<^verbatim>\<open>_dummy.c\<close>\<close>

text \<open>
  The translation unit declares one static function, one method table, one module
  definition and one exported initializer. Everything else it names (\<^verbatim>\<open>Py_None\<close>,
  \<^verbatim>\<open>METH_VARARGS\<close>, \<^verbatim>\<open>PyModule_Create\<close>) comes from the host's header
  \<^verbatim>\<open>Python.h\<close>.
\<close>

subsection \<open>Objects, errors and C functions\<close>

text \<open>
  The values a caller can pass. A C function of the host API returns either an object or
  \<^verbatim>\<open>NULL\<close> with an exception set; the latter is the \<open>Inl\<close> branch of the result.
  The interpreter state is threaded explicitly, and is a type parameter wherever the code
  never looks at it.
\<close>

datatype PyObject =
    Py_None
  | PyLong int
  | PyUnicode string
  | PyTuple "PyObject list"
  | PyModule string

datatype PyErr = PyExc_MemoryError | PyExc_SystemError | PyExc_ImportError

type_synonym 'w PyCFunction = "PyObject \<Rightarrow> PyObject \<Rightarrow> 'w \<Rightarrow> (PyErr + PyObject) \<times> 'w"

text \<open>
  \<^verbatim>\<open>static PyObject* dummy_function(PyObject* self, PyObject* args) { return Py_None; }\<close>
  Neither parameter is read, nothing is written, and the pointer returned is never
  \<^verbatim>\<open>NULL\<close>.
\<close>

definition dummy_function :: "PyObject \<Rightarrow> PyObject \<Rightarrow> 'w \<Rightarrow> (PyErr + PyObject) \<times> 'w" where
  "dummy_function self args w = (Inr Py_None, w)"

subsection \<open>The method table and the module definition\<close>

text \<open>
  A row of a method table; the C string and function pointers may be \<^verbatim>\<open>NULL\<close>.
  \<^verbatim>\<open>METH_VARARGS\<close> is \<^verbatim>\<open>0x0001\<close> in the host's header: the function receives
  its positional arguments packed in one tuple.
\<close>

record 'w PyMethodDef =
  ml_name :: "string option"
  ml_meth :: "'w PyCFunction option"
  ml_flags :: int
  ml_doc :: "string option"

definition METH_VARARGS :: int where
  "METH_VARARGS = 1"

definition DummyMethods :: "'w PyMethodDef list" where
  "DummyMethods =
     [\<lparr>ml_name = Some ''dummy'', ml_meth = Some dummy_function,
        ml_flags = METH_VARARGS, ml_doc = Some ''Dummy function''\<rparr>,
      \<lparr>ml_name = None, ml_meth = None, ml_flags = 0, ml_doc = None\<rparr>]"

text \<open>
  The fields of \<^verbatim>\<open>struct PyModuleDef\<close> that the initializer list sets, after the
  host's header block \<^verbatim>\<open>PyModuleDef_HEAD_INIT\<close>; the fields it leaves out
  (slots, traverse, clear, free) are zero.
\<close>

record 'w PyModuleDef =
  m_name :: string
  m_doc :: "string option"
  m_size :: int
  m_methods :: "'w PyMethodDef list"

definition dummymodule :: "'w PyModuleDef" where
  "dummymodule = \<lparr>m_name = ''_dummy'', m_doc = None, m_size = - 1, m_methods = DummyMethods\<rparr>"

subsection \<open>The initializer\<close>

text \<open>
  \<^verbatim>\<open>PyMODINIT_FUNC PyInit__dummy(void) { return PyModule_Create(&dummymodule); }\<close>
  The host's module-construction primitive is not part of this repository: it is the
  parameter \<open>create\<close>, of any behaviour and over any state and module representation.
\<close>

definition PyInit__dummy ::
    "('w PyModuleDef \<Rightarrow> 'w \<Rightarrow> (PyErr + 'm) \<times> 'w) \<Rightarrow> 'w \<Rightarrow> (PyErr + 'm) \<times> 'w" where
  "PyInit__dummy create w = create dummymodule w"

text \<open>
  \<^verbatim>\<open>PyInit__dummy\<close> is the one function of the file with external linkage; this is
  the name its symbol is exported under.
\<close>

definition init_symbol :: string where
  "init_symbol = ''PyInit__dummy''"

section \<open>The host's side of the interface\<close>

text \<open>
  What follows is not code of this repository: it is the part of the host interpreter
  that the module's contract depends on, namely reference counting, the calling
  convention, module construction and the loader's registry.
\<close>

subsection \<open>Reference counts\<close>

text \<open>
  The interpreter state, as far as this module can meet it: the reference count of the
  object \<open>None\<close> (a \<^verbatim>\<open>Py_ssize_t\<close>, here an unbounded integer), whether the
  interpreter treats \<open>None\<close> as immortal (a count that is never changed), the fault, if
  any, that module construction will meet, and the identity the next new object gets.
\<close>

record interp =
  none_immortal :: bool
  none_refcnt :: int
  host_fault :: "PyErr option"
  next_id :: nat

text \<open>
  The host's \<^verbatim>\<open>Py_INCREF\<close> and \<^verbatim>\<open>Py_DECREF\<close>. Only the count of \<open>None\<close>
  is tracked; the counts of other objects are not part of the state. What the host does
  when a count reaches zero (it deallocates the object, which for \<open>None\<close> is a fatal
  error) is not modelled: the count is all that is followed.
\<close>

definition Py_INCREF :: "PyObject \<Rightarrow> interp \<Rightarrow> interp" where
  "Py_INCREF ob s =
     (if ob = Py_None \<and> \<not> none_immortal s then s\<lparr>none_refcnt := none_refcnt s + 1\<rparr> else s)"

definition Py_DECREF :: "PyObject \<Rightarrow> interp \<Rightarrow> interp" where
  "Py_DECREF ob s =
     (if ob = Py_None \<and> \<not> none_immortal s then s\<lparr>none_refcnt := none_refcnt s - 1\<rparr> else s)"

text \<open>
  The host's calling convention: a C function returns a new reference, which its caller
  owns and releases when done with it. \<^verbatim>\<open>Py_RETURN_NONE\<close> is the host's macro for
  a function body that follows the convention
  (\<^verbatim>\<open>Py_INCREF(Py_None); return Py_None;\<close>); \<open>call_discard\<close> is a call whose
  result the caller drops.
\<close>

definition Py_RETURN_NONE :: "interp PyCFunction" where
  "Py_RETURN_NONE self args s = (Inr Py_None, Py_INCREF Py_None s)"

definition call_discard :: "interp PyCFunction \<Rightarrow> interp PyCFunction" where
  "call_discard f self args s =
     (case f self args s of
        (Inl e, s') \<Rightarrow> (Inl e, s')
      | (Inr r, s') \<Rightarrow> (Inr r, Py_DECREF r s'))"

text \<open>A sequence of calls, one per argument tuple, each starting in the state the last left.\<close>

fun run_calls :: "'w PyCFunction \<Rightarrow> PyObject \<Rightarrow> PyObject list \<Rightarrow> 'w \<Rightarrow> (PyErr + PyObject) list \<times> 'w" where
  "run_calls f self [] w = ([], w)"
| "run_calls f self (a # as) w =
     (case f self a w of (r, w') \<Rightarrow>
        (case run_calls f self as w' of (rs, w'') \<Rightarrow> (r # rs, w'')))"

subsection \<open>Module construction and the loader\<close>

text \<open>
  A module object: its identity, its name and its entries by name. The entries are the
  rows of the method table up to the sentinel row, the one whose name is
  \<^verbatim>\<open>NULL\<close>, as the host's loop over a method table reads them.
\<close>

record 'w PyModuleObject =
  md_id :: nat
  md_name :: string
  md_dict :: "string \<rightharpoonup> 'w PyMethodDef"

fun method_entries :: "'w PyMethodDef list \<Rightarrow> (string \<times> 'w PyMethodDef) list" where
  "method_entries [] = []"
| "method_entries (d # ds) =
     (case ml_name d of None \<Rightarrow> [] | Some n \<Rightarrow> (n, d) # method_entries ds)"

text \<open>
  Modelled from the spec: the host's module-construction primitive
  (\<^verbatim>\<open>PyModule_Create\<close> of \<^verbatim>\<open>Python.h\<close>), which this repository calls and does
  not define. It either fails with the host's fault (out of memory, duplicate
  registration), leaving no module, or produces a new module object populated with the
  entries of the definition's method table.
\<close>

definition PyModule_Create ::
    "interp PyModuleDef \<Rightarrow> interp \<Rightarrow> (PyErr + interp PyModuleObject) \<times> interp" where
  "PyModule_Create d s =
     (case host_fault s of
        Some e \<Rightarrow> (Inl e, s)
      | None \<Rightarrow>
          (Inr \<lparr>md_id = next_id s, md_name = m_name d,
                md_dict = map_of (method_entries (m_methods d))\<rparr>,
           s\<lparr>next_id := Suc (next_id s)\<rparr>))"

text \<open>
  The host's reading of \<^verbatim>\<open>m_size\<close>: a non-negative size asks for that much
  per-module state and declares that the module can be initialized again; a negative one
  declares neither.
\<close>

definition module_state_size :: "'w PyModuleDef \<Rightarrow> nat option" where
  "module_state_size d = (if m_size d < 0 then None else Some (nat (m_size d)))"

definition supports_reinit :: "'w PyModuleDef \<Rightarrow> bool" where
  "supports_reinit d = (0 \<le> m_size d)"

text \<open>
  Modelled from the spec: the host loader, which keeps the process-wide registry of
  loaded modules by name. It runs a module's initializer on the first import and answers
  from the registry afterwards; a failed initialization registers nothing.
\<close>

definition import_module ::
    "string \<Rightarrow> ('w \<Rightarrow> (PyErr + 'm) \<times> 'w) \<Rightarrow> (string \<rightharpoonup> 'm) \<times> 'w \<Rightarrow> (PyErr + 'm) \<times> (string \<rightharpoonup> 'm) \<times> 'w" where
  "import_module name init cw =
     (case cw of (cache, w) \<Rightarrow>
        (case cache name of
           Some m \<Rightarrow> (Inr m, cache, w)
         | None \<Rightarrow>
             (case init w of
                (Inl e, w') \<Rightarrow> (Inl e, cache, w')
              | (Inr m, w') \<Rightarrow> (Inr m, cache(name \<mapsto> m), w'))))"

text \<open>
  The host finds the initializer of a native module by symbol name: the prefix
  \<^verbatim>\<open>PyInit_\<close> followed by the module's name.
\<close>

definition entry_point_name :: "string \<Rightarrow> string" where
  "entry_point_name name = ''PyInit_'' @ name"

text \<open>A state to run examples in: \<open>None\<close> counted, two references held, no fault.\<close>

definition s0 :: interp where
  "s0 = \<lparr>none_immortal = False, none_refcnt = 2, host_fault = None, next_id = 0\<rparr>"

section \<open>Properties\<close>

subsection \<open>Shared facts\<close>

lemma dummy_function_frame:
  "dummy_function self args w = (Inr Py_None, w)"
  by (simp add: dummy_function_def)

lemma method_entries_DummyMethods:
  "method_entries DummyMethods =
     [(''dummy'', \<lparr>ml_name = Some ''dummy'', ml_meth = Some dummy_function,
                   ml_flags = METH_VARARGS, ml_doc = Some ''Dummy function''\<rparr>)]"
  by (simp add: DummyMethods_def)

lemma PyInit_success:
  assumes "PyInit__dummy PyModule_Create s = (Inr m, s')"
  shows "host_fault s = None"
    and "m = \<lparr>md_id = next_id s, md_name = ''_dummy'',
              md_dict = map_of (method_entries DummyMethods)\<rparr>"
    and "s' = s\<lparr>next_id := Suc (next_id s)\<rparr>"
  using assms
  by (auto simp: PyInit__dummy_def PyModule_Create_def dummymodule_def split: option.splits)

lemma PyInit_no_fault:
  assumes "host_fault s = None"
  shows "PyInit__dummy PyModule_Create s =
           (Inr \<lparr>md_id = next_id s, md_name = ''_dummy'',
                  md_dict = map_of (method_entries DummyMethods)\<rparr>,
            s\<lparr>next_id := Suc (next_id s)\<rparr>)"
  using assms by (simp add: PyInit__dummy_def PyModule_Create_def dummymodule_def)

lemma PyInit_s0:
  "PyInit__dummy PyModule_Create s0 =
     (Inr \<lparr>md_id = 0, md_name = ''_dummy'', md_dict = map_of (method_entries DummyMethods)\<rparr>,
      s0\<lparr>next_id := 1\<rparr>)"
  by (simp add: PyInit_no_fault s0_def)

lemma run_calls_dummy:
  "run_calls dummy_function self as w = (replicate (length as) (Inr Py_None), w)"
  by (induction as arbitrary: w) (simp_all add: dummy_function_frame)

lemma call_discard_dummy:
  "call_discard dummy_function self args s = (Inr Py_None, Py_DECREF Py_None s)"
  by (simp add: call_discard_def dummy_function_frame)

lemma call_discard_dummy_immortal:
  "none_immortal (snd (call_discard dummy_function self args s)) = none_immortal s"
  by (simp add: call_discard_dummy Py_DECREF_def)

lemma call_discard_dummy_refcnt:
  "\<not> none_immortal s \<Longrightarrow>
   none_refcnt (snd (call_discard dummy_function self args s)) = none_refcnt s - 1"
  by (simp add: call_discard_dummy Py_DECREF_def)

lemma funpow_call_discard_dummy:
  assumes "\<not> none_immortal s"
  shows "\<not> none_immortal (((\<lambda>t. snd (call_discard dummy_function self args t)) ^^ n) s)
         \<and> none_refcnt (((\<lambda>t. snd (call_discard dummy_function self args t)) ^^ n) s)
             = none_refcnt s - int n"
proof (induction n)
  case 0
  from assms show ?case by simp
next
  case (Suc n)
  then show ?case
    by (simp add: call_discard_dummy_immortal call_discard_dummy_refcnt)
qed

lemma call_discard_dummy_twice:
  assumes "\<not> none_immortal s"
  shows "snd (call_discard dummy_function self A (snd (call_discard dummy_function self A s)))
           \<noteq> snd (call_discard dummy_function self A s)"
proof -
  let ?s1 = "snd (call_discard dummy_function self A s)"
  have mortal: "\<not> none_immortal ?s1"
    using assms by (simp add: call_discard_dummy_immortal)
  have "none_refcnt (snd (call_discard dummy_function self A ?s1)) = none_refcnt ?s1 - 1"
    by (rule call_discard_dummy_refcnt [OF mortal])
  then have "none_refcnt (snd (call_discard dummy_function self A ?s1)) \<noteq> none_refcnt ?s1"
    by simp
  then show ?thesis
    by auto
qed

text \<open>The two call scenarios of the specification: no arguments, and \<open>(1, "x", None)\<close>.\<close>

lemma scenario_no_arguments:
  "dummy_function (PyModule ''_dummy'') (PyTuple []) s0 = (Inr Py_None, s0)"
  by (rule dummy_function_frame)

lemma scenario_mixed_arguments:
  "dummy_function (PyModule ''_dummy'') (PyTuple [PyLong 1, PyUnicode ''x'', Py_None]) s0
     = (Inr Py_None, s0)"
  by (rule dummy_function_frame)

subsection \<open>The operation \<open>dummy\<close>\<close>

text \<open>
  C1. For every argument list, whatever the receiver and the state of the interpreter,
  \<open>dummy\<close> returns the object \<open>None\<close>; it never returns an error.
\<close>

theorem dummy_returns_None:
  "fst (dummy_function self (PyTuple A) w) = Inr Py_None
   \<and> fst (dummy_function self args w) = Inr Py_None
   \<and> (\<forall>e. fst (dummy_function self args w) \<noteq> Inl e)"
  by (simp add: dummy_function_def)

text \<open>
  C7. Every call of \<open>dummy\<close> returns the same value, \<open>None\<close>, but where
  \<open>None\<close> is counted a call made twice is not the call made once: each call, once the
  caller has released its result, leaves one reference to \<open>None\<close> fewer. With two
  references held, one call of \<open>dummy()\<close> leaves one and two calls leave none. A
  function that follows the host's convention leaves the same state after two calls as
  after one.
\<close>

theorem dummy_call_twice_is_not_once:
  "run_calls (call_discard dummy_function) (PyModule ''_dummy'') [PyTuple []] s0
     = ([Inr Py_None], s0\<lparr>none_refcnt := 1\<rparr>)
   \<and> run_calls (call_discard dummy_function) (PyModule ''_dummy'') [PyTuple [], PyTuple []] s0
     = ([Inr Py_None, Inr Py_None], s0\<lparr>none_refcnt := 0\<rparr>)
   \<and> snd (run_calls (call_discard dummy_function) (PyModule ''_dummy'') [PyTuple [], PyTuple []] s0)
     \<noteq> snd (run_calls (call_discard dummy_function) (PyModule ''_dummy'') [PyTuple []] s0)
   \<and> snd (run_calls (call_discard Py_RETURN_NONE) (PyModule ''_dummy'') [PyTuple [], PyTuple []] s0)
     = snd (run_calls (call_discard Py_RETURN_NONE) (PyModule ''_dummy'') [PyTuple []] s0)"
proof -
  have one: "call_discard dummy_function (PyModule ''_dummy'') (PyTuple []) s0
      = (Inr Py_None, s0\<lparr>none_refcnt := 1\<rparr>)"
    by (simp add: call_discard_dummy Py_DECREF_def s0_def)
  have two: "call_discard dummy_function (PyModule ''_dummy'') (PyTuple []) (s0\<lparr>none_refcnt := 1\<rparr>)
      = (Inr Py_None, s0\<lparr>none_refcnt := 0\<rparr>)"
    by (simp add: call_discard_dummy Py_DECREF_def s0_def)
  have differ: "s0\<lparr>none_refcnt := 0\<rparr> \<noteq> s0\<lparr>none_refcnt := 1\<rparr>"
    by (simp add: s0_def)
  have control: "call_discard Py_RETURN_NONE (PyModule ''_dummy'') (PyTuple []) s0 = (Inr Py_None, s0)"
    by (simp add: call_discard_def Py_RETURN_NONE_def Py_DECREF_def Py_INCREF_def s0_def)
  from differ show ?thesis
    by (simp add: one two control)
qed

text \<open>
  C9. \<open>dummy_function\<close> returns \<open>None\<close> and leaves its reference count as it was:
  it hands out a reference it does not own, where the host's convention
  (\<open>Py_RETURN_NONE\<close>) counts one more. Where \<open>None\<close> is not immortal, a call whose
  result the caller releases therefore lowers the count of \<open>None\<close> by one, and \<open>n\<close>
  such calls lower it by \<open>n\<close>; a function that follows the convention leaves the count
  alone, and so does \<open>dummy_function\<close> where \<open>None\<close> is immortal.
\<close>

theorem dummy_returns_borrowed_None:
  "dummy_function self args s = (Inr Py_None, s)
   \<and> none_refcnt (snd (dummy_function self args s)) = none_refcnt s
   \<and> (\<not> none_immortal s \<longrightarrow>
        none_refcnt (snd (Py_RETURN_NONE self args s)) = none_refcnt s + 1
        \<and> dummy_function self args s \<noteq> Py_RETURN_NONE self args s)
   \<and> (\<not> none_immortal s \<longrightarrow>
        none_refcnt (snd (call_discard dummy_function self args s)) = none_refcnt s - 1)
   \<and> (\<not> none_immortal s \<longrightarrow>
        none_refcnt (((\<lambda>t. snd (call_discard dummy_function self args t)) ^^ n) s)
          = none_refcnt s - int n)
   \<and> snd (call_discard Py_RETURN_NONE self args s) = s
   \<and> (none_immortal s \<longrightarrow> snd (call_discard dummy_function self args s) = s)"
proof -
  have borrowed: "dummy_function self args s = (Inr Py_None, s)"
    by (rule dummy_function_frame)
  have conv: "\<not> none_immortal s \<longrightarrow>
        none_refcnt (snd (Py_RETURN_NONE self args s)) = none_refcnt s + 1
        \<and> dummy_function self args s \<noteq> Py_RETURN_NONE self args s"
  proof
    assume mortal: "\<not> none_immortal s"
    then have up: "none_refcnt (snd (Py_RETURN_NONE self args s)) = none_refcnt s + 1"
      by (simp add: Py_RETURN_NONE_def Py_INCREF_def)
    have "none_refcnt (snd (dummy_function self args s)) = none_refcnt s"
      by (simp add: borrowed)
    with up have "dummy_function self args s \<noteq> Py_RETURN_NONE self args s"
      by auto
    with up show "none_refcnt (snd (Py_RETURN_NONE self args s)) = none_refcnt s + 1
        \<and> dummy_function self args s \<noteq> Py_RETURN_NONE self args s"
      by simp
  qed
  have once: "\<not> none_immortal s \<longrightarrow>
        none_refcnt (snd (call_discard dummy_function self args s)) = none_refcnt s - 1"
    by (simp add: call_discard_dummy_refcnt)
  have many: "\<not> none_immortal s \<longrightarrow>
        none_refcnt (((\<lambda>t. snd (call_discard dummy_function self args t)) ^^ n) s)
          = none_refcnt s - int n"
    using funpow_call_discard_dummy by blast
  have balanced: "snd (call_discard Py_RETURN_NONE self args s) = s"
    by (simp add: call_discard_def Py_RETURN_NONE_def Py_DECREF_def Py_INCREF_def)
  have immortal: "none_immortal s \<longrightarrow> snd (call_discard dummy_function self args s) = s"
    by (simp add: call_discard_dummy Py_DECREF_def)
  from borrowed conv once many balanced immortal show ?thesis
    by simp
qed

theorem dummy_returns_borrowed_None_witness:
  "\<not> none_immortal s0
   \<and> none_refcnt (snd (call_discard dummy_function (PyModule ''_dummy'') (PyTuple []) s0)) = 1
   \<and> none_refcnt (((\<lambda>t. snd (call_discard dummy_function (PyModule ''_dummy'') (PyTuple []) t)) ^^ 2) s0) = 0
   \<and> none_immortal (s0\<lparr>none_immortal := True\<rparr>)
   \<and> snd (call_discard dummy_function (PyModule ''_dummy'') (PyTuple []) (s0\<lparr>none_immortal := True\<rparr>))
       = s0\<lparr>none_immortal := True\<rparr>"
  using dummy_returns_borrowed_None [of "PyModule ''_dummy''" "PyTuple []" s0 2]
    dummy_returns_borrowed_None [of "PyModule ''_dummy''" "PyTuple []" "s0\<lparr>none_immortal := True\<rparr>" 0]
  by (simp add: s0_def)

text \<open>
  C3. The body of \<open>dummy_function\<close> writes nothing (\<open>dummy_function_frame\<close>), but a
  call of \<open>dummy\<close> is not free of effects where \<open>None\<close> is counted: the caller
  releases the reference it was handed, which \<open>dummy_function\<close> never took. With two
  references to \<open>None\<close> held, one call of \<open>dummy()\<close> leaves one, and the state is not
  the state before the call.
\<close>

theorem dummy_call_lowers_None_refcnt:
  "snd (call_discard dummy_function (PyModule ''_dummy'') (PyTuple []) s0) = s0\<lparr>none_refcnt := 1\<rparr>
   \<and> snd (call_discard dummy_function (PyModule ''_dummy'') (PyTuple []) s0) \<noteq> s0
   \<and> snd (call_discard Py_RETURN_NONE (PyModule ''_dummy'') (PyTuple []) s0) = s0"
  by (simp add: call_discard_def dummy_function_def Py_RETURN_NONE_def Py_DECREF_def
      Py_INCREF_def s0_def)

subsection \<open>The module and its initializer\<close>

text \<open>
  C2. The module that a successful initialization produces exposes exactly one entry,
  named \<open>dummy\<close>, and that entry is callable; the method table of the module
  definition lists no other name.
\<close>

theorem module_exposes_only_dummy:
  assumes "PyInit__dummy PyModule_Create s = (Inr m, s')"
  shows "dom (md_dict m) = {''dummy''}
         \<and> card (dom (md_dict m)) = 1
         \<and> (\<exists>d f. md_dict m ''dummy'' = Some d \<and> ml_meth d = Some f)
         \<and> map fst (method_entries (m_methods (dummymodule :: interp PyModuleDef))) = [''dummy'']"
proof -
  have entries: "md_dict m = map_of (method_entries DummyMethods)"
    using PyInit_success(2) [OF assms] by simp
  have names: "dom (md_dict m) = {''dummy''}"
    unfolding entries method_entries_DummyMethods by simp
  have callable: "\<exists>d f. md_dict m ''dummy'' = Some d \<and> ml_meth d = Some f"
    unfolding entries method_entries_DummyMethods by simp
  have table: "map fst (method_entries (m_methods (dummymodule :: interp PyModuleDef))) = [''dummy'']"
    by (simp add: dummymodule_def method_entries_DummyMethods)
  from names callable table show ?thesis by simp
qed

theorem module_exposes_only_dummy_witness:
  "PyInit__dummy PyModule_Create s0 =
     (Inr \<lparr>md_id = 0, md_name = ''_dummy'', md_dict = map_of (method_entries DummyMethods)\<rparr>,
      s0\<lparr>next_id := 1\<rparr>)
   \<and> dom (map_of (method_entries (DummyMethods :: interp PyMethodDef list))) = {''dummy''}"
  using module_exposes_only_dummy [OF PyInit_s0] PyInit_s0 by simp

text \<open>
  C5. When initialization succeeds, its result is the module named \<open>_dummy\<close> whose
  entries are exactly one: the name \<open>dummy\<close>, bound to \<open>dummy_function\<close>.
\<close>

theorem init_result_maps_dummy:
  assumes "PyInit__dummy PyModule_Create s = (Inr m, s')"
  shows "md_name m = ''_dummy''
         \<and> md_dict m =
             [''dummy'' \<mapsto> \<lparr>ml_name = Some ''dummy'', ml_meth = Some dummy_function,
                             ml_flags = METH_VARARGS, ml_doc = Some ''Dummy function''\<rparr>]
         \<and> (\<exists>d. md_dict m ''dummy'' = Some d \<and> ml_meth d = Some dummy_function)
         \<and> (\<forall>n. n \<noteq> ''dummy'' \<longrightarrow> md_dict m n = None)"
proof -
  have entries: "md_dict m = map_of (method_entries DummyMethods)"
    using PyInit_success(2) [OF assms] by simp
  have name: "md_name m = ''_dummy''"
    using PyInit_success(2) [OF assms] by simp
  show ?thesis
    unfolding entries name method_entries_DummyMethods by simp
qed

theorem init_result_maps_dummy_witness:
  "PyInit__dummy PyModule_Create s0 =
     (Inr \<lparr>md_id = 0, md_name = ''_dummy'', md_dict = map_of (method_entries DummyMethods)\<rparr>,
      s0\<lparr>next_id := 1\<rparr>)
   \<and> map_of (method_entries (DummyMethods :: interp PyMethodDef list)) ''dummy''
       = Some \<lparr>ml_name = Some ''dummy'', ml_meth = Some dummy_function,
               ml_flags = METH_VARARGS, ml_doc = Some ''Dummy function''\<rparr>
   \<and> map_of (method_entries (DummyMethods :: interp PyMethodDef list)) ''other'' = None"
  using init_result_maps_dummy [OF PyInit_s0] PyInit_s0
  by (simp add: method_entries_DummyMethods)

text \<open>
  C4. Initialization is the host's module construction and nothing more: whatever the
  primitive does, the initializer returns its result and its state as they are. It
  fails exactly when the primitive fails, with the primitive's error, and a loader that
  runs it on a failing primitive registers nothing.
\<close>

theorem init_failure_is_create_failure:
  "PyInit__dummy create w = create dummymodule w
   \<and> (fst (PyInit__dummy create w) = Inl e) = (fst (create dummymodule w) = Inl e)
   \<and> snd (PyInit__dummy create w) = snd (create dummymodule w)
   \<and> (cache name = None \<and> fst (create dummymodule w) = Inl e \<longrightarrow>
        import_module name (PyInit__dummy create) (cache, w)
          = (Inl e, cache, snd (create dummymodule w)))"
proof -
  have same: "PyInit__dummy create w = create dummymodule w"
    by (simp add: PyInit__dummy_def)
  have loader: "cache name = None \<and> fst (create dummymodule w) = Inl e \<longrightarrow>
        import_module name (PyInit__dummy create) (cache, w)
          = (Inl e, cache, snd (create dummymodule w))"
  proof
    assume h: "cache name = None \<and> fst (create dummymodule w) = Inl e"
    obtain r w' where rw: "create dummymodule w = (r, w')"
      by (cases "create dummymodule w")
    with h have "r = Inl e" by simp
    with h rw show "import_module name (PyInit__dummy create) (cache, w)
          = (Inl e, cache, snd (create dummymodule w))"
      by (simp add: import_module_def same)
  qed
  from same loader show ?thesis by simp
qed

theorem init_failure_is_create_failure_witness:
  "fst (PyModule_Create dummymodule (s0\<lparr>host_fault := Some PyExc_MemoryError\<rparr>))
     = Inl PyExc_MemoryError
   \<and> PyInit__dummy PyModule_Create (s0\<lparr>host_fault := Some PyExc_MemoryError\<rparr>)
       = (Inl PyExc_MemoryError, s0\<lparr>host_fault := Some PyExc_MemoryError\<rparr>)
   \<and> import_module ''_dummy'' (PyInit__dummy PyModule_Create)
        (Map.empty, s0\<lparr>host_fault := Some PyExc_MemoryError\<rparr>)
       = (Inl PyExc_MemoryError, Map.empty, s0\<lparr>host_fault := Some PyExc_MemoryError\<rparr>)"
proof -
  have fails: "PyModule_Create dummymodule (s0\<lparr>host_fault := Some PyExc_MemoryError\<rparr>)
      = (Inl PyExc_MemoryError, s0\<lparr>host_fault := Some PyExc_MemoryError\<rparr>)"
    by (simp add: PyModule_Create_def)
  show ?thesis
    using init_failure_is_create_failure
      [of PyModule_Create "s0\<lparr>host_fault := Some PyExc_MemoryError\<rparr>" PyExc_MemoryError
          Map.empty "''_dummy''"]
    by (simp add: fails)
qed

text \<open>
  C6. The symbol the initializer is exported under is the host's entry-point name for
  the module name that the module definition declares, \<open>_dummy\<close>.
\<close>

theorem init_symbol_matches_module_name:
  "entry_point_name (m_name dummymodule) = init_symbol
   \<and> m_name dummymodule = ''_dummy''"
  by (simp add: entry_point_name_def dummymodule_def init_symbol_def)

text \<open>
  C10. The module definition sets \<open>m_size\<close> to \<open>-1\<close>: no per-module state, no
  support for being initialized again. The initializer keeps nothing between
  invocations: each invocation runs the primitive again, and with no fault two
  invocations in a row produce two different module objects. The same object on a second
  import comes from the loader's registry, which does not run the initializer again.
\<close>

theorem init_constructs_fresh_module:
  "m_size dummymodule = - 1
   \<and> module_state_size dummymodule = None
   \<and> \<not> supports_reinit dummymodule
   \<and> PyInit__dummy create (snd (PyInit__dummy create w))
       = create dummymodule (snd (create dummymodule w))
   \<and> (host_fault s = None \<longrightarrow>
        (\<exists>m1 s1 m2 s2.
           PyInit__dummy PyModule_Create s = (Inr m1, s1)
           \<and> PyInit__dummy PyModule_Create s1 = (Inr m2, s2)
           \<and> md_id m1 \<noteq> md_id m2 \<and> m1 \<noteq> m2))
   \<and> (host_fault s = None \<and> cache ''_dummy'' = None \<longrightarrow>
        (\<exists>m cs.
           import_module ''_dummy'' (PyInit__dummy PyModule_Create) (cache, s) = (Inr m, cs)
           \<and> import_module ''_dummy'' (PyInit__dummy PyModule_Create) cs = (Inr m, cs)))"
proof -
  have size: "m_size dummymodule = - 1"
    by (simp add: dummymodule_def)
  have state: "module_state_size dummymodule = None"
    by (simp add: module_state_size_def dummymodule_def)
  have reinit: "\<not> supports_reinit dummymodule"
    by (simp add: supports_reinit_def dummymodule_def)
  have again: "PyInit__dummy create (snd (PyInit__dummy create w))
       = create dummymodule (snd (create dummymodule w))"
    by (simp add: PyInit__dummy_def)
  have fresh: "host_fault s = None \<longrightarrow>
        (\<exists>m1 s1 m2 s2.
           PyInit__dummy PyModule_Create s = (Inr m1, s1)
           \<and> PyInit__dummy PyModule_Create s1 = (Inr m2, s2)
           \<and> md_id m1 \<noteq> md_id m2 \<and> m1 \<noteq> m2)"
  proof
    assume ok: "host_fault s = None"
    let ?s1 = "s\<lparr>next_id := Suc (next_id s)\<rparr>"
    have ok1: "host_fault ?s1 = None" using ok by simp
    note first = PyInit_no_fault [OF ok]
    note second = PyInit_no_fault [OF ok1]
    have "md_id \<lparr>md_id = next_id s, md_name = ''_dummy'',
              md_dict = map_of (method_entries (DummyMethods :: interp PyMethodDef list))\<rparr>
          \<noteq> md_id \<lparr>md_id = next_id ?s1, md_name = ''_dummy'',
              md_dict = map_of (method_entries (DummyMethods :: interp PyMethodDef list))\<rparr>"
      by simp
    with first second show "\<exists>m1 s1 m2 s2.
           PyInit__dummy PyModule_Create s = (Inr m1, s1)
           \<and> PyInit__dummy PyModule_Create s1 = (Inr m2, s2)
           \<and> md_id m1 \<noteq> md_id m2 \<and> m1 \<noteq> m2"
      by fastforce
  qed
  have cached: "host_fault s = None \<and> cache ''_dummy'' = None \<longrightarrow>
        (\<exists>m cs.
           import_module ''_dummy'' (PyInit__dummy PyModule_Create) (cache, s) = (Inr m, cs)
           \<and> import_module ''_dummy'' (PyInit__dummy PyModule_Create) cs = (Inr m, cs))"
  proof
    assume h: "host_fault s = None \<and> cache ''_dummy'' = None"
    then have ok: "host_fault s = None" by simp
    note first = PyInit_no_fault [OF ok]
    from h show "\<exists>m cs.
           import_module ''_dummy'' (PyInit__dummy PyModule_Create) (cache, s) = (Inr m, cs)
           \<and> import_module ''_dummy'' (PyInit__dummy PyModule_Create) cs = (Inr m, cs)"
      by (simp add: import_module_def first)
  qed
  from size state reinit again fresh cached show ?thesis
    by blast
qed

theorem init_constructs_fresh_module_witness:
  "host_fault s0 = None
   \<and> (\<exists>m1 s1 m2 s2.
         PyInit__dummy PyModule_Create s0 = (Inr m1, s1)
         \<and> PyInit__dummy PyModule_Create s1 = (Inr m2, s2)
         \<and> md_id m1 \<noteq> md_id m2 \<and> m1 \<noteq> m2)
   \<and> (\<exists>m cs.
         import_module ''_dummy'' (PyInit__dummy PyModule_Create) (Map.empty, s0) = (Inr m, cs)
         \<and> import_module ''_dummy'' (PyInit__dummy PyModule_Create) cs = (Inr m, cs))"
proof -
  have ok: "host_fault s0 = None"
    by (simp add: s0_def)
  then have both: "host_fault s0 = None \<and> (None :: interp PyModuleObject option) = None"
    by simp
  note rest = init_constructs_fresh_module
    [of PyModule_Create s0 s0 "Map.empty :: string \<rightharpoonup> interp PyModuleObject",
      THEN conjunct2, THEN conjunct2, THEN conjunct2, THEN conjunct2]
  note two = rest [THEN conjunct1, THEN mp, OF ok]
  note one = rest [THEN conjunct2, THEN mp, OF both]
  from ok two one show ?thesis
    by (intro conjI)
qed

end
